theory Spec2Isabelle
  imports Main "HOL-Library.Word"
begin

section \<open>The Opus JNI bridge: data model\<close>

text \<open>
  The development embeds the two translation units of the bridge,
  \<^verbatim>\<open>opus_jni.cpp\<close> (wired to libopus) and \<^verbatim>\<open>opus_jni_stub.cpp\<close> (the interface-shape
  variant). Every JNI entry point becomes a function from the state of the outside world to
  its return value and the new state. Pointers are 64 bits wide (LP64), so the casts between
  \<^verbatim>\<open>jlong\<close> and \<^verbatim>\<open>OpusEncoder *\<close> are the identity.
\<close>

type_synonym jint = "32 word"
type_synonym jsize = "32 word"
type_synonym jlong = "64 word"
type_synonym jshort = "16 word"
type_synonym jbyte = "8 word"

text \<open>A native address; \<open>0\<close> is the null pointer.\<close>
type_synonym ptr = "64 word"

text \<open>A Java array reference is null (\<open>None\<close>) or names an array object of the Java heap.\<close>
type_synonym ref = nat
type_synonym jshortArray = "ref option"
type_synonym jbyteArray = "ref option"

subsection \<open>The codec library\<close>

text \<open>
  The control requests built by the macros \<^verbatim>\<open>OPUS_SET_VBR(x)\<close> ... of \<^verbatim>\<open>opus_defines.h\<close>,
  each with its argument.
\<close>

datatype ctl_request =
    OPUS_SET_VBR jint
  | OPUS_SET_VBR_CONSTRAINT jint
  | OPUS_SET_BITRATE jint
  | OPUS_SET_COMPLEXITY jint
  | OPUS_SET_SIGNAL jint
  | OPUS_SET_LSB_DEPTH jint
  | OPUS_SET_DTX jint
  | OPUS_SET_INBAND_FEC jint
  | OPUS_SET_PACKET_LOSS_PERC jint

text \<open>
  libopus is an external collaborator: its header and its code are not part of the
  repository. The bridge is therefore modelled over an arbitrary library, given by the
  constants of the header that the bridge names and by one function for each primitive it
  calls. \<open>'s\<close> is the library's own state (the memory behind every encoder and decoder).
  A function that writes through a pointer argument returns the new contents of that buffer:
  \<open>opus_encoder_create\<close> returns the pointer and the value stored in \<^verbatim>\<open>*error\<close>,
  \<open>opus_encode\<close> the result and the new contents of \<^verbatim>\<open>data\<close>, \<open>opus_decode\<close> the result
  and the new contents of \<^verbatim>\<open>pcm\<close>.
\<close>

record 's opus_lib =
  OPUS_OK :: jint
  OPUS_APPLICATION_VOIP :: jint
  OPUS_SIGNAL_VOICE :: jint
  opus_encoder_create :: "jint \<Rightarrow> jint \<Rightarrow> jint \<Rightarrow> 's \<Rightarrow> (ptr \<times> jint) \<times> 's"
  opus_encoder_ctl :: "ptr \<Rightarrow> ctl_request \<Rightarrow> 's \<Rightarrow> jint \<times> 's"
  opus_decoder_create :: "jint \<Rightarrow> jint \<Rightarrow> 's \<Rightarrow> (ptr \<times> jint) \<times> 's"
  opus_encode :: "ptr \<Rightarrow> jshort list \<Rightarrow> jint \<Rightarrow> jbyte list \<Rightarrow> jint \<Rightarrow> 's \<Rightarrow> (jint \<times> jbyte list) \<times> 's"
  opus_decode :: "ptr \<Rightarrow> jbyte list \<Rightarrow> jint \<Rightarrow> jshort list \<Rightarrow> jint \<Rightarrow> jint \<Rightarrow> 's \<Rightarrow> (jint \<times> jshort list) \<times> 's"
  opus_encoder_destroy :: "ptr \<Rightarrow> 's \<Rightarrow> 's"
  opus_decoder_destroy :: "ptr \<Rightarrow> 's \<Rightarrow> 's"
  opus_get_version_string :: string
  opus_encoder_get_size :: "jint \<Rightarrow> jint"
  opus_decoder_get_size :: "jint \<Rightarrow> jint"

subsection \<open>The observable world\<close>

text \<open>A lease is the direct access to the elements of one array, from Get to Release.\<close>

datatype lease = ShortElems ref | ByteElems ref

datatype codec_call =
    Call_encoder_create jint jint jint
  | Call_encoder_ctl ptr ctl_request
  | Call_decoder_create jint jint
  | Call_encode ptr "jshort list" jint jint
  | Call_decode ptr "jbyte list" jint jint jint
  | Call_encoder_destroy ptr
  | Call_decoder_destroy ptr

datatype priority = ANDROID_LOG_INFO | ANDROID_LOG_ERROR

text \<open>
  The format strings of the log calls, one constructor for each call site of
  \<^verbatim>\<open>opus_jni.cpp\<close>; the stub's messages carry the name of the operation.
\<close>

datatype msg =
    Msg_encoder_created
  | Msg_encoder_create_failed
  | Msg_decoder_created
  | Msg_decoder_create_failed
  | Msg_encode_invalid_args
  | Msg_encode_size_mismatch
  | Msg_opus_encode_failed
  | Msg_decode_invalid_args
  | Msg_decode_size_mismatch
  | Msg_opus_decode_failed
  | Msg_encoder_destroyed
  | Msg_decoder_destroyed
  | Msg_stub string

text \<open>Everything a call does to the outside, in the order in which it happens.\<close>

datatype event =
    Log priority msg "jint list"
  | GetElements lease
  | ReleaseElements lease jint
  | Codec codec_call

record 's world =
  codec_st :: 's
  short_arrays :: "ref \<rightharpoonup> jshort list"
  byte_arrays :: "ref \<rightharpoonup> jbyte list"
  leases :: "lease list"
  trace :: "event list"

definition emit :: "event \<Rightarrow> 's world \<Rightarrow> 's world" where
  "emit e w = w\<lparr>trace := trace w @ [e]\<rparr>"

definition LOGI :: "msg \<Rightarrow> jint list \<Rightarrow> 's world \<Rightarrow> 's world" where
  "LOGI m args w = emit (Log ANDROID_LOG_INFO m args) w"

definition LOGE :: "msg \<Rightarrow> jint list \<Rightarrow> 's world \<Rightarrow> 's world" where
  "LOGE m args w = emit (Log ANDROID_LOG_ERROR m args) w"

subsection \<open>The JNI functions the bridge calls\<close>

text \<open>The release modes of \<^verbatim>\<open>jni.h\<close>; mode \<open>0\<close> copies back and frees the buffer.\<close>

definition JNI_COMMIT :: jint where "JNI_COMMIT = 1"
definition JNI_ABORT :: jint where "JNI_ABORT = 2"

text \<open>
  \<^verbatim>\<open>Get<Type>ArrayElements\<close> hands out a native buffer holding the elements of the array and
  records the lease; \<^verbatim>\<open>Release<Type>ArrayElements\<close> copies the buffer back into the array
  (unless the mode is \<^verbatim>\<open>JNI_ABORT\<close>) and ends the lease (unless the mode is
  \<^verbatim>\<open>JNI_COMMIT\<close>). A reference that names no array cannot arise in Java; the theorems
  below assume the references of a call are live.
\<close>

definition GetShortArrayElements :: "ref \<Rightarrow> 's world \<Rightarrow> jshort list \<times> 's world" where
  "GetShortArrayElements a w =
     ((case short_arrays w a of Some xs \<Rightarrow> xs | None \<Rightarrow> []),
      emit (GetElements (ShortElems a)) (w\<lparr>leases := leases w @ [ShortElems a]\<rparr>))"

definition GetByteArrayElements :: "ref \<Rightarrow> 's world \<Rightarrow> jbyte list \<times> 's world" where
  "GetByteArrayElements a w =
     ((case byte_arrays w a of Some ys \<Rightarrow> ys | None \<Rightarrow> []),
      emit (GetElements (ByteElems a)) (w\<lparr>leases := leases w @ [ByteElems a]\<rparr>))"

definition ReleaseShortArrayElements :: "ref \<Rightarrow> jshort list \<Rightarrow> jint \<Rightarrow> 's world \<Rightarrow> 's world" where
  "ReleaseShortArrayElements a elems mode w =
     emit (ReleaseElements (ShortElems a) mode)
       (w\<lparr>short_arrays := (if mode = JNI_ABORT then short_arrays w else (short_arrays w)(a \<mapsto> elems)),
          leases := (if mode = JNI_COMMIT then leases w else remove1 (ShortElems a) (leases w))\<rparr>)"

definition ReleaseByteArrayElements :: "ref \<Rightarrow> jbyte list \<Rightarrow> jint \<Rightarrow> 's world \<Rightarrow> 's world" where
  "ReleaseByteArrayElements a elems mode w =
     emit (ReleaseElements (ByteElems a) mode)
       (w\<lparr>byte_arrays := (if mode = JNI_ABORT then byte_arrays w else (byte_arrays w)(a \<mapsto> elems)),
          leases := (if mode = JNI_COMMIT then leases w else remove1 (ByteElems a) (leases w))\<rparr>)"

definition GetShortArrayLength :: "ref \<Rightarrow> 's world \<Rightarrow> jsize" where
  "GetShortArrayLength a w = (case short_arrays w a of Some xs \<Rightarrow> of_nat (length xs) | None \<Rightarrow> 0)"

definition GetByteArrayLength :: "ref \<Rightarrow> 's world \<Rightarrow> jsize" where
  "GetByteArrayLength a w = (case byte_arrays w a of Some ys \<Rightarrow> of_nat (length ys) | None \<Rightarrow> 0)"


subsection \<open>Calls into the codec\<close>

text \<open>Each call runs the library's function on the library's state and is recorded.\<close>

definition call_encoder_create ::
  "'s opus_lib \<Rightarrow> jint \<Rightarrow> jint \<Rightarrow> jint \<Rightarrow> 's world \<Rightarrow> (ptr \<times> jint) \<times> 's world" where
  "call_encoder_create c Fs channels application w =
     (let (r, st) = opus_encoder_create c Fs channels application (codec_st w)
      in (r, emit (Codec (Call_encoder_create Fs channels application)) (w\<lparr>codec_st := st\<rparr>)))"

definition call_encoder_ctl :: "'s opus_lib \<Rightarrow> ptr \<Rightarrow> ctl_request \<Rightarrow> 's world \<Rightarrow> jint \<times> 's world" where
  "call_encoder_ctl c p req w =
     (let (r, st) = opus_encoder_ctl c p req (codec_st w)
      in (r, emit (Codec (Call_encoder_ctl p req)) (w\<lparr>codec_st := st\<rparr>)))"

definition call_decoder_create ::
  "'s opus_lib \<Rightarrow> jint \<Rightarrow> jint \<Rightarrow> 's world \<Rightarrow> (ptr \<times> jint) \<times> 's world" where
  "call_decoder_create c Fs channels w =
     (let (r, st) = opus_decoder_create c Fs channels (codec_st w)
      in (r, emit (Codec (Call_decoder_create Fs channels)) (w\<lparr>codec_st := st\<rparr>)))"

definition call_encode ::
  "'s opus_lib \<Rightarrow> ptr \<Rightarrow> jshort list \<Rightarrow> jint \<Rightarrow> jbyte list \<Rightarrow> jint \<Rightarrow> 's world
     \<Rightarrow> (jint \<times> jbyte list) \<times> 's world" where
  "call_encode c p pcm frame_size data max_data_bytes w =
     (let (r, st) = opus_encode c p pcm frame_size data max_data_bytes (codec_st w)
      in (r, emit (Codec (Call_encode p pcm frame_size max_data_bytes)) (w\<lparr>codec_st := st\<rparr>)))"

definition call_decode ::
  "'s opus_lib \<Rightarrow> ptr \<Rightarrow> jbyte list \<Rightarrow> jint \<Rightarrow> jshort list \<Rightarrow> jint \<Rightarrow> jint \<Rightarrow> 's world
     \<Rightarrow> (jint \<times> jshort list) \<times> 's world" where
  "call_decode c p data len pcm frame_size decode_fec w =
     (let (r, st) = opus_decode c p data len pcm frame_size decode_fec (codec_st w)
      in (r, emit (Codec (Call_decode p data len frame_size decode_fec)) (w\<lparr>codec_st := st\<rparr>)))"

definition call_encoder_destroy :: "'s opus_lib \<Rightarrow> ptr \<Rightarrow> 's world \<Rightarrow> 's world" where
  "call_encoder_destroy c p w =
     emit (Codec (Call_encoder_destroy p)) (w\<lparr>codec_st := opus_encoder_destroy c p (codec_st w)\<rparr>)"

definition call_decoder_destroy :: "'s opus_lib \<Rightarrow> ptr \<Rightarrow> 's world \<Rightarrow> 's world" where
  "call_decoder_destroy c p w =
     emit (Codec (Call_decoder_destroy p)) (w\<lparr>codec_st := opus_decoder_destroy c p (codec_st w)\<rparr>)"

section \<open>The working variant (\<^verbatim>\<open>opus_jni.cpp\<close>)\<close>

text \<open>
  The null checks of \<^verbatim>\<open>encode\<close> and \<^verbatim>\<open>decode\<close> come before any JNI call; the size checks
  come after both \<^verbatim>\<open>Get<Type>ArrayElements\<close> calls, and each later exit releases both arrays
  with mode 0.
  \<^verbatim>\<open>createEncoder\<close>: the nine control requests are issued in the order of the source and
  their results are discarded; the pointer is returned on both branches.
\<close>

definition ctl :: "'s opus_lib \<Rightarrow> ptr \<Rightarrow> ctl_request \<Rightarrow> 's world \<Rightarrow> 's world" where
  "ctl c p req w = snd (call_encoder_ctl c p req w)"

definition createEncoder ::
  "'s opus_lib \<Rightarrow> jint \<Rightarrow> jint \<Rightarrow> jint \<Rightarrow> jint \<Rightarrow> 's world \<Rightarrow> jlong \<times> 's world" where
  "createEncoder c sampleRateInHz channelConfig complexity bitrate w =
     (let ((pOpusEnc, error), w1) =
            call_encoder_create c sampleRateInHz channelConfig (OPUS_APPLICATION_VOIP c) w
      in if pOpusEnc \<noteq> 0 \<and> error = OPUS_OK c then
           let w2 = ctl c pOpusEnc (OPUS_SET_VBR 0) w1;
               w3 = ctl c pOpusEnc (OPUS_SET_VBR_CONSTRAINT 1) w2;
               w4 = ctl c pOpusEnc (OPUS_SET_BITRATE bitrate) w3;
               w5 = ctl c pOpusEnc (OPUS_SET_COMPLEXITY complexity) w4;
               w6 = ctl c pOpusEnc (OPUS_SET_SIGNAL (OPUS_SIGNAL_VOICE c)) w5;
               w7 = ctl c pOpusEnc (OPUS_SET_LSB_DEPTH 16) w6;
               w8 = ctl c pOpusEnc (OPUS_SET_DTX 0) w7;
               w9 = ctl c pOpusEnc (OPUS_SET_INBAND_FEC 0) w8;
               w10 = ctl c pOpusEnc (OPUS_SET_PACKET_LOSS_PERC 0) w9
           in (pOpusEnc,
               LOGI Msg_encoder_created [sampleRateInHz, channelConfig, complexity, bitrate] w10)
         else (pOpusEnc, LOGE Msg_encoder_create_failed [error] w1))"

definition createDecoder :: "'s opus_lib \<Rightarrow> jint \<Rightarrow> jint \<Rightarrow> 's world \<Rightarrow> jlong \<times> 's world" where
  "createDecoder c sampleRateInHz channelConfig w =
     (let ((pOpusDec, error), w1) = call_decoder_create c sampleRateInHz channelConfig w
      in if pOpusDec \<noteq> 0 \<and> error = OPUS_OK c then
           (pOpusDec, LOGI Msg_decoder_created [sampleRateInHz, channelConfig] w1)
         else (pOpusDec, LOGE Msg_decoder_create_failed [error] w1))"

definition encode ::
  "'s opus_lib \<Rightarrow> jlong \<Rightarrow> jshortArray \<Rightarrow> jint \<Rightarrow> jbyteArray \<Rightarrow> 's world \<Rightarrow> jint \<times> 's world" where
  "encode c pOpusEnc samples frameSize bytes w =
     (if pOpusEnc = 0 \<or> samples = None \<or> bytes = None then
        (- 1, LOGE Msg_encode_invalid_args [] w)
      else
        (let s = the samples; b = the bytes;
             (pSamples, w1) = GetShortArrayElements s w;
             nSampleSize = GetShortArrayLength s w1;
             (pBytes, w2) = GetByteArrayElements b w1;
             nByteSize = GetByteArrayLength b w2
         in if nSampleSize <s frameSize \<or> nByteSize \<le>s 0 then
              (let w3 = LOGE Msg_encode_size_mismatch [nSampleSize, frameSize, nByteSize] w2;
                   w4 = ReleaseShortArrayElements s pSamples 0 w3;
                   w5 = ReleaseByteArrayElements b pBytes 0 w4
               in (- 1, w5))
            else
              (let ((nRet, pBytes'), w3) =
                     call_encode c pOpusEnc pSamples frameSize pBytes nByteSize w2;
                   w4 = (if nRet <s 0 then LOGE Msg_opus_encode_failed [nRet] w3 else w3);
                   w5 = ReleaseShortArrayElements s pSamples 0 w4;
                   w6 = ReleaseByteArrayElements b pBytes' 0 w5
               in (nRet, w6))))"

definition decode ::
  "'s opus_lib \<Rightarrow> jlong \<Rightarrow> jbyteArray \<Rightarrow> jint \<Rightarrow> jshortArray \<Rightarrow> jint \<Rightarrow> 's world
     \<Rightarrow> jint \<times> 's world" where
  "decode c pOpusDec bytes bytesLength samples frameSize w =
     (if pOpusDec = 0 \<or> samples = None \<or> bytes = None then
        (- 1, LOGE Msg_decode_invalid_args [] w)
      else
        (let s = the samples; b = the bytes;
             (pSamples, w1) = GetShortArrayElements s w;
             (pBytes, w2) = GetByteArrayElements b w1;
             nShortSize = GetShortArrayLength s w2
         in if bytesLength \<le>s 0 \<or> nShortSize <s frameSize then
              (let w3 = LOGE Msg_decode_size_mismatch [bytesLength, nShortSize, frameSize] w2;
                   w4 = ReleaseShortArrayElements s pSamples 0 w3;
                   w5 = ReleaseByteArrayElements b pBytes 0 w4
               in (- 1, w5))
            else
              (let ((nRet, pSamples'), w3) =
                     call_decode c pOpusDec pBytes bytesLength pSamples frameSize 0 w2;
                   w4 = (if nRet <s 0 then LOGE Msg_opus_decode_failed [nRet] w3 else w3);
                   w5 = ReleaseShortArrayElements s pSamples' 0 w4;
                   w6 = ReleaseByteArrayElements b pBytes 0 w5
               in (nRet, w6))))"

definition destroyEncoder :: "'s opus_lib \<Rightarrow> jlong \<Rightarrow> 's world \<Rightarrow> 's world" where
  "destroyEncoder c pOpusEnc w =
     (if pOpusEnc \<noteq> 0 then LOGI Msg_encoder_destroyed [] (call_encoder_destroy c pOpusEnc w)
      else w)"

definition destroyDecoder :: "'s opus_lib \<Rightarrow> jlong \<Rightarrow> 's world \<Rightarrow> 's world" where
  "destroyDecoder c pOpusDec w =
     (if pOpusDec \<noteq> 0 then LOGI Msg_decoder_destroyed [] (call_decoder_destroy c pOpusDec w)
      else w)"


definition getEncoderSize :: "'s opus_lib \<Rightarrow> jint \<Rightarrow> 's world \<Rightarrow> jint \<times> 's world" where
  "getEncoderSize c channels w = (opus_encoder_get_size c channels, w)"

definition getDecoderSize :: "'s opus_lib \<Rightarrow> jint \<Rightarrow> 's world \<Rightarrow> jint \<times> 's world" where
  "getDecoderSize c channels w = (opus_decoder_get_size c channels, w)"

section \<open>The interface-shape variant (\<^verbatim>\<open>opus_jni_stub.cpp\<close>)\<close>


definition stub_createEncoder ::
  "jint \<Rightarrow> jint \<Rightarrow> jint \<Rightarrow> jint \<Rightarrow> 's world \<Rightarrow> jlong \<times> 's world" where
  "stub_createEncoder sampleRateInHz channelConfig complexity bitrate w =
     (0, LOGI (Msg_stub ''createEncoder'') [] w)"

definition stub_createDecoder :: "jint \<Rightarrow> jint \<Rightarrow> 's world \<Rightarrow> jlong \<times> 's world" where
  "stub_createDecoder sampleRateInHz channelConfig w =
     (0, LOGI (Msg_stub ''createDecoder'') [] w)"

definition stub_encode ::
  "jlong \<Rightarrow> jshortArray \<Rightarrow> jint \<Rightarrow> jbyteArray \<Rightarrow> 's world \<Rightarrow> jint \<times> 's world" where
  "stub_encode pOpusEnc samples frameSize bytes w = (- 1, LOGI (Msg_stub ''encode'') [] w)"

definition stub_decode ::
  "jlong \<Rightarrow> jbyteArray \<Rightarrow> jint \<Rightarrow> jshortArray \<Rightarrow> jint \<Rightarrow> 's world \<Rightarrow> jint \<times> 's world" where
  "stub_decode pOpusDec bytes bytesLength samples frameSize w =
     (- 1, LOGI (Msg_stub ''decode'') [] w)"

definition stub_destroyEncoder :: "jlong \<Rightarrow> 's world \<Rightarrow> 's world" where
  "stub_destroyEncoder pOpusEnc w = LOGI (Msg_stub ''destroyEncoder'') [] w"

definition stub_destroyDecoder :: "jlong \<Rightarrow> 's world \<Rightarrow> 's world" where
  "stub_destroyDecoder pOpusDec w = LOGI (Msg_stub ''destroyDecoder'') [] w"

definition stub_getEncoderSize :: "jint \<Rightarrow> 's world \<Rightarrow> jint \<times> 's world" where
  "stub_getEncoderSize channels w = (0, LOGI (Msg_stub ''getEncoderSize'') [] w)"

definition stub_getDecoderSize :: "jint \<Rightarrow> 's world \<Rightarrow> jint \<times> 's world" where
  "stub_getDecoderSize channels w = (0, LOGI (Msg_stub ''getDecoderSize'') [] w)"

section \<open>Notions of the specification\<close>

text \<open>
  An event touches native memory when it hands out, takes back or passes on a native
  buffer: the element accesses of JNI and every call into the codec. Log output does not.
\<close>

definition native_access :: "event \<Rightarrow> bool" where
  "native_access e = (case e of Log p m args \<Rightarrow> False | _ \<Rightarrow> True)"

text \<open>
  The fixed configuration policy in the words of the specification: constant bit-rate,
  VBR-constraint enabled, requested bitrate, requested complexity, voice signal hint, 16-bit
  sample depth, DTX disabled, inband FEC disabled, packet-loss percentage 0.
\<close>

definition fixed_policy :: "'s opus_lib \<Rightarrow> jint \<Rightarrow> jint \<Rightarrow> ctl_request list" where
  "fixed_policy c complexity bitrate =
     [OPUS_SET_VBR 0, OPUS_SET_VBR_CONSTRAINT 1, OPUS_SET_BITRATE bitrate,
      OPUS_SET_COMPLEXITY complexity, OPUS_SET_SIGNAL (OPUS_SIGNAL_VOICE c),
      OPUS_SET_LSB_DEPTH 16, OPUS_SET_DTX 0, OPUS_SET_INBAND_FEC 0,
      OPUS_SET_PACKET_LOSS_PERC 0]"





section \<open>A library instance and a world for concrete runs\<close>

text \<open>
  A small instance of the library, used only to run the bridge on concrete inputs. It keeps
  to the documented contract of libopus where a run below depends on it: creation accepts
  the five sample rates and one or two channels and otherwise returns the null pointer with
  \<^verbatim>\<open>OPUS_BAD_ARG\<close> (-1); \<^verbatim>\<open>OPUS_SET_COMPLEXITY\<close> answers \<^verbatim>\<open>OPUS_BAD_ARG\<close> outside 0..10;
  encoding into fewer than three bytes and decoding into fewer than 120 samples answer
  \<^verbatim>\<open>OPUS_BUFFER_TOO_SMALL\<close> (-2). Its state counts the resources created so far.
\<close>

definition demo_opus :: "nat opus_lib" where
  "demo_opus = \<lparr>
     OPUS_OK = 0,
     OPUS_APPLICATION_VOIP = 2048,
     OPUS_SIGNAL_VOICE = 3001,
     opus_encoder_create = (\<lambda>Fs channels application n.
        if (Fs = 8000 \<or> Fs = 12000 \<or> Fs = 16000 \<or> Fs = 24000 \<or> Fs = 48000)
           \<and> (channels = 1 \<or> channels = 2)
        then ((4096 * (of_nat n + 1), 0), Suc n) else ((0, - 1), n)),
     opus_encoder_ctl = (\<lambda>p req n.
        ((case req of
            OPUS_SET_COMPLEXITY x \<Rightarrow> if 0 \<le>s x \<and> x \<le>s 10 then 0 else - 1
          | _ \<Rightarrow> 0), n)),
     opus_decoder_create = (\<lambda>Fs channels n.
        if (Fs = 8000 \<or> Fs = 12000 \<or> Fs = 16000 \<or> Fs = 24000 \<or> Fs = 48000)
           \<and> (channels = 1 \<or> channels = 2)
        then ((4096 * (of_nat n + 1), 0), Suc n) else ((0, - 1), n)),
     opus_encode = (\<lambda>p pcm frame_size data max_data_bytes n.
        if max_data_bytes <s 3 then ((- 2, data), n)
        else ((3, [88, 0, 0] @ drop 3 data), n)),
     opus_decode = (\<lambda>p data len pcm frame_size decode_fec n.
        if frame_size <s 120 then ((- 2, pcm), n)
        else ((120, replicate 120 0 @ drop 120 pcm), n)),
     opus_encoder_destroy = (\<lambda>p n. n),
     opus_decoder_destroy = (\<lambda>p n. n),
     opus_get_version_string = ''libopus 1.3.1'',
     opus_encoder_get_size = (\<lambda>channels. if channels = 1 \<or> channels = 2 then 1000 * channels else 0),
     opus_decoder_get_size = (\<lambda>channels. if channels = 1 \<or> channels = 2 then 500 * channels else 0)\<rparr>"

text \<open>
  Two sample arrays (320 and 100 samples) and three byte arrays (256, 3 and 2 bytes); no
  lease is outstanding and nothing has happened yet.
\<close>

definition demo_world :: "nat world" where
  "demo_world = \<lparr>
     codec_st = 0,
     short_arrays = [1 \<mapsto> replicate 320 0, 2 \<mapsto> replicate 100 0],
     byte_arrays = [3 \<mapsto> replicate 256 0, 4 \<mapsto> [88, 0, 0], 5 \<mapsto> [1, 2]],
     leases = [],
     trace = []\<rparr>"


section \<open>Auxiliary facts\<close>

subsection \<open>Array lengths as \<^verbatim>\<open>jsize\<close>\<close>

lemma sint_of_nat_len:
  "n < 2 ^ 31 \<Longrightarrow> sint (of_nat n :: 32 word) = int n"
  by (simp add: signed_of_nat signed_take_bit_int_eq_self)

lemma jsize_sless:
  "n < 2 ^ 31 \<Longrightarrow> (of_nat n :: 32 word) <s k \<longleftrightarrow> int n < sint k"
  by (simp add: word_sless_alt sint_of_nat_len)

lemma jsize_sle_zero:
  "n < 2 ^ 31 \<Longrightarrow> (of_nat n :: 32 word) \<le>s 0 \<longleftrightarrow> n = 0"
  by (simp add: word_sle_eq sint_of_nat_len)

lemma jint_sle_zero: "(k :: 32 word) \<le>s 0 \<longleftrightarrow> sint k \<le> 0"
  by (simp add: word_sle_eq)

subsection \<open>The three ways through \<^verbatim>\<open>encode\<close> and \<^verbatim>\<open>decode\<close>\<close>

lemmas jni_defs = emit_def LOGI_def LOGE_def GetShortArrayElements_def GetByteArrayElements_def
  ReleaseShortArrayElements_def ReleaseByteArrayElements_def GetShortArrayLength_def
  GetByteArrayLength_def JNI_COMMIT_def JNI_ABORT_def

lemmas codec_defs = call_encoder_create_def call_encoder_ctl_def call_decoder_create_def
  call_encode_def call_decode_def call_encoder_destroy_def call_decoder_destroy_def ctl_def

lemma encode_null:
  "h = 0 \<or> samples = None \<or> bytes = None \<Longrightarrow>
   encode c h samples frameSize bytes w = (- 1, LOGE Msg_encode_invalid_args [] w)"
  by (simp add: encode_def)

lemma decode_null:
  "h = 0 \<or> samples = None \<or> bytes = None \<Longrightarrow>
   decode c h bytes bytesLength samples frameSize w = (- 1, LOGE Msg_decode_invalid_args [] w)"
  by (simp add: decode_def)

lemma encode_size_fail:
  assumes "h \<noteq> 0" "short_arrays w s = Some xs" "byte_arrays w b = Some ys"
    and "of_nat (length xs) <s frameSize \<or> (of_nat (length ys) :: jint) \<le>s 0"
  shows "encode c h (Some s) frameSize (Some b) w =
    (- 1, w\<lparr>short_arrays := (short_arrays w)(s \<mapsto> xs),
            byte_arrays := (byte_arrays w)(b \<mapsto> ys),
            leases := remove1 (ByteElems b)
              (remove1 (ShortElems s) (leases w @ [ShortElems s, ByteElems b])),
            trace := trace w @ [GetElements (ShortElems s), GetElements (ByteElems b),
              Log ANDROID_LOG_ERROR Msg_encode_size_mismatch
                [of_nat (length xs), frameSize, of_nat (length ys)],
              ReleaseElements (ShortElems s) 0, ReleaseElements (ByteElems b) 0]\<rparr>)"
  using assms by (simp add: encode_def jni_defs Let_def)

lemma decode_size_fail:
  assumes "h \<noteq> 0" "short_arrays w s = Some xs" "byte_arrays w b = Some ys"
    and "bytesLength \<le>s 0 \<or> of_nat (length xs) <s frameSize"
  shows "decode c h (Some b) bytesLength (Some s) frameSize w =
    (- 1, w\<lparr>short_arrays := (short_arrays w)(s \<mapsto> xs),
            byte_arrays := (byte_arrays w)(b \<mapsto> ys),
            leases := remove1 (ByteElems b)
              (remove1 (ShortElems s) (leases w @ [ShortElems s, ByteElems b])),
            trace := trace w @ [GetElements (ShortElems s), GetElements (ByteElems b),
              Log ANDROID_LOG_ERROR Msg_decode_size_mismatch
                [bytesLength, of_nat (length xs), frameSize],
              ReleaseElements (ShortElems s) 0, ReleaseElements (ByteElems b) 0]\<rparr>)"
  using assms by (simp add: decode_def jni_defs Let_def)

lemma encode_run:
  assumes "h \<noteq> 0" "short_arrays w s = Some xs" "byte_arrays w b = Some ys"
    and "\<not> (of_nat (length xs) <s frameSize \<or> (of_nat (length ys) :: jint) \<le>s 0)"
    and "opus_encode c h xs frameSize ys (of_nat (length ys)) (codec_st w) = ((nRet, ys'), st)"
  shows "encode c h (Some s) frameSize (Some b) w =
    (nRet, w\<lparr>codec_st := st,
            short_arrays := (short_arrays w)(s \<mapsto> xs),
            byte_arrays := (byte_arrays w)(b \<mapsto> ys'),
            leases := remove1 (ByteElems b)
              (remove1 (ShortElems s) (leases w @ [ShortElems s, ByteElems b])),
            trace := trace w @ [GetElements (ShortElems s), GetElements (ByteElems b),
              Codec (Call_encode h xs frameSize (of_nat (length ys)))]
              @ (if nRet <s 0 then [Log ANDROID_LOG_ERROR Msg_opus_encode_failed [nRet]] else [])
              @ [ReleaseElements (ShortElems s) 0, ReleaseElements (ByteElems b) 0]\<rparr>)"
  using assms by (simp add: encode_def jni_defs call_encode_def Let_def)

lemma decode_run:
  assumes "h \<noteq> 0" "short_arrays w s = Some xs" "byte_arrays w b = Some ys"
    and "\<not> (bytesLength \<le>s 0 \<or> of_nat (length xs) <s frameSize)"
    and "opus_decode c h ys bytesLength xs frameSize 0 (codec_st w) = ((nRet, xs'), st)"
  shows "decode c h (Some b) bytesLength (Some s) frameSize w =
    (nRet, w\<lparr>codec_st := st,
            short_arrays := (short_arrays w)(s \<mapsto> xs'),
            byte_arrays := (byte_arrays w)(b \<mapsto> ys),
            leases := remove1 (ByteElems b)
              (remove1 (ShortElems s) (leases w @ [ShortElems s, ByteElems b])),
            trace := trace w @ [GetElements (ShortElems s), GetElements (ByteElems b),
              Codec (Call_decode h ys bytesLength frameSize 0)]
              @ (if nRet <s 0 then [Log ANDROID_LOG_ERROR Msg_opus_decode_failed [nRet]] else [])
              @ [ReleaseElements (ShortElems s) 0, ReleaseElements (ByteElems b) 0]\<rparr>)"
  using assms by (simp add: decode_def jni_defs call_decode_def Let_def)

subsection \<open>Failed size checks leave the arrays as they were\<close>



subsection \<open>Creation\<close>

lemma createEncoder_ptr:
  "fst (createEncoder c sr ch cx br w)
     = fst (fst (opus_encoder_create c sr ch (OPUS_APPLICATION_VOIP c) (codec_st w)))"
  by (simp add: createEncoder_def call_encoder_create_def Let_def split: prod.splits)

lemma createDecoder_ptr:
  "fst (createDecoder c sr ch w) = fst (fst (opus_decoder_create c sr ch (codec_st w)))"
  by (simp add: createDecoder_def call_decoder_create_def Let_def split: prod.splits)

lemma trace_ctl: "trace (ctl c p req w) = trace w @ [Codec (Call_encoder_ctl p req)]"
  by (simp add: ctl_def call_encoder_ctl_def emit_def split: prod.splits)

lemma codec_st_ctl: "codec_st (ctl c p req w) = snd (opus_encoder_ctl c p req (codec_st w))"
  by (simp add: ctl_def call_encoder_ctl_def emit_def split: prod.splits)

section \<open>Buffer leases\<close>

text \<open>
  C1. For every call to \<^verbatim>\<open>encode\<close> or \<^verbatim>\<open>decode\<close> of the working variant, on every exit
  path (success, the -1 of a violated precondition, a negative codec error), every lease
  acquired during the call is released before the return: a call entered with no lease
  outstanding returns with none outstanding. The statement holds for every library, handle,
  pair of references and size, so it covers each exit.
\<close>

theorem leases_released:
  assumes "leases w = []"
  shows "leases (snd (encode c h samples frameSize bytes w)) = []
       \<and> leases (snd (decode c h bytes bytesLength samples frameSize w)) = []"
  using assms
  by (simp add: encode_def decode_def jni_defs call_encode_def call_decode_def Let_def
      split: prod.splits)

text \<open>
  The three exits on the concrete world: a successful call, a failed size check and a
  codec error.
\<close>

theorem leases_released_witness:
  "leases demo_world = []
   \<and> fst (encode demo_opus 4096 (Some 1) 320 (Some 3) demo_world) = 3
   \<and> leases (snd (encode demo_opus 4096 (Some 1) 320 (Some 3) demo_world)) = []
   \<and> fst (decode demo_opus 4096 (Some 4) 3 (Some 1) 320 demo_world) = 120
   \<and> leases (snd (decode demo_opus 4096 (Some 4) 3 (Some 1) 320 demo_world)) = []
   \<and> fst (encode demo_opus 4096 (Some 2) 320 (Some 3) demo_world) = - 1
   \<and> leases (snd (encode demo_opus 4096 (Some 2) 320 (Some 3) demo_world)) = []
   \<and> fst (decode demo_opus 4096 (Some 3) 0 (Some 1) 320 demo_world) = - 1
   \<and> leases (snd (decode demo_opus 4096 (Some 3) 0 (Some 1) 320 demo_world)) = []
   \<and> fst (encode demo_opus 4096 (Some 2) 100 (Some 5) demo_world) = - 2
   \<and> leases (snd (encode demo_opus 4096 (Some 2) 100 (Some 5) demo_world)) = []
   \<and> fst (decode demo_opus 4096 (Some 5) 2 (Some 2) 100 demo_world) = - 2
   \<and> leases (snd (decode demo_opus 4096 (Some 5) 2 (Some 2) 100 demo_world)) = []"
  using
    leases_released [where w = demo_world and c = demo_opus and h = 4096 and samples = "Some 1"
      and frameSize = 320 and bytes = "Some 3" and bytesLength = 0]
    leases_released [where w = demo_world and c = demo_opus and h = 4096 and samples = "Some 1"
      and frameSize = 320 and bytes = "Some 4" and bytesLength = 3]
    leases_released [where w = demo_world and c = demo_opus and h = 4096 and samples = "Some 2"
      and frameSize = 320 and bytes = "Some 3" and bytesLength = 256]
    leases_released [where w = demo_world and c = demo_opus and h = 4096 and samples = "Some 2"
      and frameSize = 100 and bytes = "Some 5" and bytesLength = 2]
  by (simp add: demo_world_def demo_opus_def encode_def decode_def jni_defs call_encode_def
      call_decode_def Let_def word_sless_alt word_sle_eq)

section \<open>Violated preconditions\<close>

text \<open>
  C2, as amended. A call to \<^verbatim>\<open>encode\<close> or \<^verbatim>\<open>decode\<close> whose handle or one of whose buffers
  is null returns -1 at once: its only effect is one error line in the log, no buffer is
  accessed and the codec is not invoked. A call with a handle and both buffers whose size
  check fails (for \<^verbatim>\<open>encode\<close>: fewer than \<open>frameSize\<close> samples, or an empty output array; for
  \<^verbatim>\<open>decode\<close>: \<open>bytesLength \<le> 0\<close>, or fewer than \<open>frameSize\<close> output samples) returns -1
  without invoking the codec, having acquired the elements of both arrays and released
  them again: its events are the two acquisitions, the error line and the two
  releases, and the state of the codec is as before.
\<close>

theorem precondition_failure:
  assumes "short_arrays w s = Some xs" "length xs < 2 ^ 31"
    and "byte_arrays w b = Some ys" "length ys < 2 ^ 31"
  shows "(h = 0 \<or> samples = None \<or> bytes = None \<longrightarrow>
            encode c h samples frameSize bytes w
              = (- 1, w\<lparr>trace := trace w @ [Log ANDROID_LOG_ERROR Msg_encode_invalid_args []]\<rparr>)
          \<and> decode c h bytes bytesLength samples frameSize w
              = (- 1, w\<lparr>trace := trace w @ [Log ANDROID_LOG_ERROR Msg_decode_invalid_args []]\<rparr>))
       \<and> (h \<noteq> 0 \<and> (int (length xs) < sint frameSize \<or> length ys = 0) \<longrightarrow>
            fst (encode c h (Some s) frameSize (Some b) w) = - 1
          \<and> codec_st (snd (encode c h (Some s) frameSize (Some b) w)) = codec_st w
          \<and> trace (snd (encode c h (Some s) frameSize (Some b) w))
              = trace w @ [GetElements (ShortElems s), GetElements (ByteElems b),
                  Log ANDROID_LOG_ERROR Msg_encode_size_mismatch
                    [of_nat (length xs), frameSize, of_nat (length ys)],
                  ReleaseElements (ShortElems s) 0, ReleaseElements (ByteElems b) 0])
       \<and> (h \<noteq> 0 \<and> (sint bytesLength \<le> 0 \<or> int (length xs) < sint frameSize) \<longrightarrow>
            fst (decode c h (Some b) bytesLength (Some s) frameSize w) = - 1
          \<and> codec_st (snd (decode c h (Some b) bytesLength (Some s) frameSize w)) = codec_st w
          \<and> trace (snd (decode c h (Some b) bytesLength (Some s) frameSize w))
              = trace w @ [GetElements (ShortElems s), GetElements (ByteElems b),
                  Log ANDROID_LOG_ERROR Msg_decode_size_mismatch
                    [bytesLength, of_nat (length xs), frameSize],
                  ReleaseElements (ShortElems s) 0, ReleaseElements (ByteElems b) 0])"
proof (intro conjI impI)
  assume "h = 0 \<or> samples = None \<or> bytes = None"
  then show "encode c h samples frameSize bytes w
      = (- 1, w\<lparr>trace := trace w @ [Log ANDROID_LOG_ERROR Msg_encode_invalid_args []]\<rparr>)"
    by (simp add: encode_null LOGE_def emit_def)
next
  assume "h = 0 \<or> samples = None \<or> bytes = None"
  then show "decode c h bytes bytesLength samples frameSize w
      = (- 1, w\<lparr>trace := trace w @ [Log ANDROID_LOG_ERROR Msg_decode_invalid_args []]\<rparr>)"
    by (simp add: decode_null LOGE_def emit_def)
next
  assume a: "h \<noteq> 0 \<and> (int (length xs) < sint frameSize \<or> length ys = 0)"
  then have "of_nat (length xs) <s frameSize \<or> (of_nat (length ys) :: jint) \<le>s 0"
    using assms by (simp add: jsize_sless jsize_sle_zero)
  note e = encode_size_fail [OF _ assms(1) assms(3) this, of h c]
  from a e show "fst (encode c h (Some s) frameSize (Some b) w) = - 1" by simp
  from a e show "codec_st (snd (encode c h (Some s) frameSize (Some b) w)) = codec_st w" by simp
  from a e show "trace (snd (encode c h (Some s) frameSize (Some b) w))
      = trace w @ [GetElements (ShortElems s), GetElements (ByteElems b),
          Log ANDROID_LOG_ERROR Msg_encode_size_mismatch
            [of_nat (length xs), frameSize, of_nat (length ys)],
          ReleaseElements (ShortElems s) 0, ReleaseElements (ByteElems b) 0]" by simp
next
  assume a: "h \<noteq> 0 \<and> (sint bytesLength \<le> 0 \<or> int (length xs) < sint frameSize)"
  then have "bytesLength \<le>s 0 \<or> of_nat (length xs) <s frameSize"
    using assms by (simp add: jsize_sless jint_sle_zero)
  note e = decode_size_fail [OF _ assms(1) assms(3) this, of h c]
  from a e show "fst (decode c h (Some b) bytesLength (Some s) frameSize w) = - 1" by simp
  from a e show "codec_st (snd (decode c h (Some b) bytesLength (Some s) frameSize w)) = codec_st w"
    by simp
  from a e show "trace (snd (decode c h (Some b) bytesLength (Some s) frameSize w))
      = trace w @ [GetElements (ShortElems s), GetElements (ByteElems b),
          Log ANDROID_LOG_ERROR Msg_decode_size_mismatch
            [bytesLength, of_nat (length xs), frameSize],
          ReleaseElements (ShortElems s) 0, ReleaseElements (ByteElems b) 0]" by simp
qed

text \<open>A null handle, then a live handle with 100 samples for a frame of 320.\<close>

theorem precondition_failure_witness:
  "short_arrays demo_world 2 = Some (replicate 100 0)
   \<and> length (replicate 100 (0 :: jshort)) < 2 ^ 31
   \<and> byte_arrays demo_world 3 = Some (replicate 256 0)
   \<and> length (replicate 256 (0 :: jbyte)) < 2 ^ 31
   \<and> fst (encode demo_opus 0 (Some 2) 320 (Some 3) demo_world) = - 1
   \<and> trace (snd (encode demo_opus 0 (Some 2) 320 (Some 3) demo_world))
       = [Log ANDROID_LOG_ERROR Msg_encode_invalid_args []]
   \<and> fst (decode demo_opus 0 (Some 3) 256 (Some 2) 320 demo_world) = - 1
   \<and> (4096 :: jlong) \<noteq> 0
   \<and> int (length (replicate 100 (0 :: jshort))) < sint (320 :: jint)
   \<and> fst (encode demo_opus 4096 (Some 2) 320 (Some 3) demo_world) = - 1
   \<and> trace (snd (encode demo_opus 4096 (Some 2) 320 (Some 3) demo_world))
       = [GetElements (ShortElems 2), GetElements (ByteElems 3),
          Log ANDROID_LOG_ERROR Msg_encode_size_mismatch [100, 320, 256],
          ReleaseElements (ShortElems 2) 0, ReleaseElements (ByteElems 3) 0]
   \<and> fst (decode demo_opus 4096 (Some 3) 256 (Some 2) 320 demo_world) = - 1
   \<and> trace (snd (decode demo_opus 4096 (Some 3) 256 (Some 2) 320 demo_world))
       = [GetElements (ShortElems 2), GetElements (ByteElems 3),
          Log ANDROID_LOG_ERROR Msg_decode_size_mismatch [256, 100, 320],
          ReleaseElements (ShortElems 2) 0, ReleaseElements (ByteElems 3) 0]"
  using precondition_failure [where w = demo_world and s = 2 and xs = "replicate 100 0"
      and b = 3 and ys = "replicate 256 0" and h = 0 and samples = "Some 2"
      and bytes = "Some 3" and c = demo_opus and frameSize = 320 and bytesLength = 256]
    precondition_failure [where w = demo_world and s = 2 and xs = "replicate 100 0"
      and b = 3 and ys = "replicate 256 0" and h = 4096 and samples = "Some 2"
      and bytes = "Some 3" and c = demo_opus and frameSize = 320 and bytesLength = 256]
  by (simp add: demo_world_def)

text \<open>
  C2 as stated fails where a size check fails: \<^verbatim>\<open>encode\<close> with 100 samples for a frame of
  320 returns -1, but only after \<^verbatim>\<open>GetShortArrayElements\<close> and \<^verbatim>\<open>GetByteArrayElements\<close> have
  handed out the native buffers of both arrays.
\<close>

theorem size_violation_acquires_buffers:
  "short_arrays demo_world 2 = Some (replicate 100 0)
   \<and> int (length (replicate 100 (0 :: jshort))) < sint (320 :: jint)
   \<and> fst (encode demo_opus 4096 (Some 2) 320 (Some 3) demo_world) = - 1
   \<and> list_ex native_access (trace (snd (encode demo_opus 4096 (Some 2) 320 (Some 3) demo_world)))"
  by (simp add: demo_world_def encode_def jni_defs Let_def native_access_def)

section \<open>Creation\<close>

text \<open>
  C3, as amended. \<^verbatim>\<open>createEncoder\<close> and \<^verbatim>\<open>createDecoder\<close> return the sentinel 0 whenever the
  codec's create call returns no resource (an allocation failure, or parameters the create
  call rejects), and they return the non-zero handle of the live resource whenever the
  create call returns one together with \<^verbatim>\<open>OPUS_OK\<close>. A configuration request that fails after
  the encoder exists is not detected and does not change the handle.
\<close>

theorem create_handle:
  "(fst (fst (opus_encoder_create c sr ch (OPUS_APPLICATION_VOIP c) (codec_st w))) = 0
      \<longrightarrow> fst (createEncoder c sr ch cx br w) = 0)
   \<and> (opus_encoder_create c sr ch (OPUS_APPLICATION_VOIP c) (codec_st w) = ((p, OPUS_OK c), st)
        \<and> p \<noteq> 0
      \<longrightarrow> fst (createEncoder c sr ch cx br w) = p \<and> fst (createEncoder c sr ch cx br w) \<noteq> 0)
   \<and> (fst (fst (opus_decoder_create c sr ch (codec_st w))) = 0
      \<longrightarrow> fst (createDecoder c sr ch w) = 0)
   \<and> (opus_decoder_create c sr ch (codec_st w) = ((p, OPUS_OK c), st) \<and> p \<noteq> 0
      \<longrightarrow> fst (createDecoder c sr ch w) = p \<and> fst (createDecoder c sr ch w) \<noteq> 0)"
  by (simp add: createEncoder_ptr createDecoder_ptr)

text \<open>A sample rate the codec rejects (44100 Hz), then one it accepts (16000 Hz).\<close>

theorem create_handle_witness:
  "fst (fst (opus_encoder_create demo_opus 44100 1 (OPUS_APPLICATION_VOIP demo_opus)
            (codec_st demo_world))) = 0
   \<and> fst (createEncoder demo_opus 44100 1 5 16000 demo_world) = 0
   \<and> fst (fst (opus_decoder_create demo_opus 44100 1 (codec_st demo_world))) = 0
   \<and> fst (createDecoder demo_opus 44100 1 demo_world) = 0
   \<and> opus_encoder_create demo_opus 16000 1 (OPUS_APPLICATION_VOIP demo_opus)
        (codec_st demo_world) = ((4096, OPUS_OK demo_opus), 1)
   \<and> opus_decoder_create demo_opus 16000 1 (codec_st demo_world)
        = ((4096, OPUS_OK demo_opus), 1)
   \<and> (4096 :: ptr) \<noteq> 0
   \<and> fst (createEncoder demo_opus 16000 1 5 16000 demo_world) = 4096
   \<and> fst (createDecoder demo_opus 16000 1 demo_world) = 4096"
  using create_handle [where c = demo_opus and sr = 44100 and ch = 1 and w = demo_world
      and cx = 5 and br = 16000 and p = 0 and st = 0]
    create_handle [where c = demo_opus and sr = 16000 and ch = 1 and w = demo_world
      and cx = 5 and br = 16000 and p = 4096 and st = 1]
  by (simp add: demo_opus_def demo_world_def)

text \<open>
  C3 as stated fails where configuration fails: with complexity 11 the request
  \<^verbatim>\<open>OPUS_SET_COMPLEXITY(11)\<close> is issued and answered with an error, its result is discarded,
  and \<^verbatim>\<open>createEncoder\<close> returns a non-zero handle.
\<close>

theorem configuration_failure_ignored:
  "fst (opus_encoder_ctl demo_opus 4096 (OPUS_SET_COMPLEXITY 11) 1) \<noteq> OPUS_OK demo_opus
   \<and> Codec (Call_encoder_ctl 4096 (OPUS_SET_COMPLEXITY 11))
        \<in> set (trace (snd (createEncoder demo_opus 16000 1 11 16000 demo_world)))
   \<and> fst (createEncoder demo_opus 16000 1 11 16000 demo_world) \<noteq> 0"
  by (simp add: demo_opus_def demo_world_def createEncoder_def codec_defs emit_def LOGI_def
      Let_def word_sle_eq)

text \<open>
  C4. On every successful encoder creation \<^verbatim>\<open>createEncoder\<close> applies the fixed configuration
  policy to the new encoder: after the create call it issues, on the pointer just returned
  and in this order, exactly the requests of the policy (VBR off, VBR constraint on, the
  requested bitrate, the requested complexity, voice signal, 16-bit depth, DTX off, inband
  FEC off, packet loss 0), then logs the success; the codec's state is the one these
  requests produce.
\<close>

theorem encoder_policy_applied:
  assumes "opus_encoder_create c sr ch (OPUS_APPLICATION_VOIP c) (codec_st w)
             = ((p, OPUS_OK c), st)"
    and "p \<noteq> 0"
  shows "trace (snd (createEncoder c sr ch cx br w))
           = trace w @ Codec (Call_encoder_create sr ch (OPUS_APPLICATION_VOIP c))
               # map (\<lambda>req. Codec (Call_encoder_ctl p req)) (fixed_policy c cx br)
               @ [Log ANDROID_LOG_INFO Msg_encoder_created [sr, ch, cx, br]]
       \<and> codec_st (snd (createEncoder c sr ch cx br w))
           = foldl (\<lambda>s req. snd (opus_encoder_ctl c p req s)) st (fixed_policy c cx br)"
  using assms
  by (simp add: createEncoder_def call_encoder_create_def Let_def trace_ctl codec_st_ctl
      fixed_policy_def LOGI_def emit_def)

theorem encoder_policy_applied_witness:
  "opus_encoder_create demo_opus 16000 1 (OPUS_APPLICATION_VOIP demo_opus) (codec_st demo_world)
     = ((4096, OPUS_OK demo_opus), 1)
   \<and> (4096 :: ptr) \<noteq> 0
   \<and> trace (snd (createEncoder demo_opus 16000 1 5 24000 demo_world))
       = [Codec (Call_encoder_create 16000 1 2048),
          Codec (Call_encoder_ctl 4096 (OPUS_SET_VBR 0)),
          Codec (Call_encoder_ctl 4096 (OPUS_SET_VBR_CONSTRAINT 1)),
          Codec (Call_encoder_ctl 4096 (OPUS_SET_BITRATE 24000)),
          Codec (Call_encoder_ctl 4096 (OPUS_SET_COMPLEXITY 5)),
          Codec (Call_encoder_ctl 4096 (OPUS_SET_SIGNAL 3001)),
          Codec (Call_encoder_ctl 4096 (OPUS_SET_LSB_DEPTH 16)),
          Codec (Call_encoder_ctl 4096 (OPUS_SET_DTX 0)),
          Codec (Call_encoder_ctl 4096 (OPUS_SET_INBAND_FEC 0)),
          Codec (Call_encoder_ctl 4096 (OPUS_SET_PACKET_LOSS_PERC 0)),
          Log ANDROID_LOG_INFO Msg_encoder_created [16000, 1, 5, 24000]]"
  using encoder_policy_applied [where c = demo_opus and sr = 16000 and ch = 1
      and w = demo_world and p = 4096 and st = 1 and cx = 5 and br = 24000]
  by (simp add: demo_opus_def demo_world_def fixed_policy_def)

section \<open>The interface-shape variant\<close>

text \<open>
  C5. In the interface-shape variant, for every input, \<^verbatim>\<open>createEncoder\<close> and
  \<^verbatim>\<open>createDecoder\<close> return the sentinel 0, \<^verbatim>\<open>encode\<close> and \<^verbatim>\<open>decode\<close> return -1, and
  \<^verbatim>\<open>getEncoderSize\<close> and \<^verbatim>\<open>getDecoderSize\<close> return the placeholder 0.
\<close>

theorem stub_results:
  "fst (stub_createEncoder sampleRateInHz channelConfig complexity bitrate w) = 0
   \<and> fst (stub_createDecoder sampleRateInHz channelConfig w) = 0
   \<and> fst (stub_encode pOpusEnc samples frameSize bytes w) = - 1
   \<and> fst (stub_decode pOpusDec bytes bytesLength samples frameSize w) = - 1
   \<and> fst (stub_getEncoderSize channels w) = 0
   \<and> fst (stub_getDecoderSize channels w) = 0"
  by (simp add: stub_createEncoder_def stub_createDecoder_def stub_encode_def stub_decode_def
      stub_getEncoderSize_def stub_getDecoderSize_def)

section \<open>Destruction\<close>

text \<open>
  C6, as amended. For the sentinel handle 0, \<^verbatim>\<open>destroyEncoder\<close> and \<^verbatim>\<open>destroyDecoder\<close> release
  no codec resource and always return. In the working variant they change nothing at all.
  In the interface-shape variant they have one effect, for 0 as for every handle: one
  informational line in the log.
\<close>

theorem destroy_sentinel:
  "destroyEncoder c 0 w = w \<and> destroyDecoder c 0 w = w
   \<and> stub_destroyEncoder h w
       = w\<lparr>trace := trace w @ [Log ANDROID_LOG_INFO (Msg_stub ''destroyEncoder'') []]\<rparr>
   \<and> stub_destroyDecoder h w
       = w\<lparr>trace := trace w @ [Log ANDROID_LOG_INFO (Msg_stub ''destroyDecoder'') []]\<rparr>"
  by (simp add: destroyEncoder_def destroyDecoder_def stub_destroyEncoder_def
      stub_destroyDecoder_def LOGI_def emit_def)

text \<open>
  C6 as stated fails in the interface-shape variant: destroying the handle 0 is not without
  effect there, the world after the call differs from the world before it by the log line.
\<close>

theorem stub_destroy_logs:
  "stub_destroyEncoder 0 demo_world \<noteq> demo_world
   \<and> stub_destroyDecoder 0 demo_world \<noteq> demo_world"
proof -
  have "trace (stub_destroyEncoder 0 demo_world) \<noteq> trace demo_world"
    by (simp add: stub_destroyEncoder_def LOGI_def emit_def)
  moreover have "trace (stub_destroyDecoder 0 demo_world) \<noteq> trace demo_world"
    by (simp add: stub_destroyDecoder_def LOGI_def emit_def)
  ultimately show ?thesis by auto
qed

section \<open>Shortfalls and codec errors\<close>




text \<open>
  C8. For every \<^verbatim>\<open>encode\<close> or \<^verbatim>\<open>decode\<close> call whose bridge-level preconditions hold (a
  handle, both buffers, enough samples, a non-empty output array or a positive byte length)
  and on which the codec answers a negative error code, the bridge returns that code
  unchanged.
\<close>

theorem codec_error_passed_through:
  assumes "h \<noteq> 0" "short_arrays w s = Some xs" "length xs < 2 ^ 31"
    and "byte_arrays w b = Some ys" "length ys < 2 ^ 31"
    and "sint frameSize \<le> int (length xs)"
  shows "(0 < length ys
          \<and> opus_encode c h xs frameSize ys (of_nat (length ys)) (codec_st w) = ((nRet, ys'), st)
          \<and> nRet <s 0
          \<longrightarrow> fst (encode c h (Some s) frameSize (Some b) w) = nRet)
       \<and> (0 < sint bytesLength
          \<and> opus_decode c h ys bytesLength xs frameSize 0 (codec_st w) = ((nRet, xs'), st)
          \<and> nRet <s 0
          \<longrightarrow> fst (decode c h (Some b) bytesLength (Some s) frameSize w) = nRet)"
proof (intro conjI impI)
  assume a: "0 < length ys
    \<and> opus_encode c h xs frameSize ys (of_nat (length ys)) (codec_st w) = ((nRet, ys'), st)
    \<and> nRet <s 0"
  with assms have "\<not> (of_nat (length xs) <s frameSize \<or> (of_nat (length ys) :: jint) \<le>s 0)"
    by (simp add: jsize_sless jsize_sle_zero)
  from encode_run [OF assms(1,2,4) this] a
  show "fst (encode c h (Some s) frameSize (Some b) w) = nRet" by simp
next
  assume a: "0 < sint bytesLength
    \<and> opus_decode c h ys bytesLength xs frameSize 0 (codec_st w) = ((nRet, xs'), st)
    \<and> nRet <s 0"
  with assms have "\<not> (bytesLength \<le>s 0 \<or> of_nat (length xs) <s frameSize)"
    by (simp add: jsize_sless jint_sle_zero)
  from decode_run [OF assms(1,2,4) this] a
  show "fst (decode c h (Some b) bytesLength (Some s) frameSize w) = nRet" by simp
qed

text \<open>The codec answers -2 to a two-byte output array and to a frame of 100 samples.\<close>

theorem codec_error_passed_through_witness:
  "(4096 :: jlong) \<noteq> 0 \<and> short_arrays demo_world 2 = Some (replicate 100 0)
   \<and> length (replicate 100 (0 :: jshort)) < 2 ^ 31
   \<and> byte_arrays demo_world 5 = Some [1, 2] \<and> length [1, 2 :: jbyte] < 2 ^ 31
   \<and> sint (100 :: jint) \<le> int (length (replicate 100 (0 :: jshort)))
   \<and> 0 < length [1, 2 :: jbyte]
   \<and> opus_encode demo_opus 4096 (replicate 100 0) 100 [1, 2] (of_nat (length [1, 2 :: jbyte]))
        (codec_st demo_world) = ((- 2, [1, 2]), 0)
   \<and> 0 < sint (2 :: jint)
   \<and> opus_decode demo_opus 4096 [1, 2] 2 (replicate 100 0) 100 0 (codec_st demo_world)
        = ((- 2, replicate 100 0), 0)
   \<and> (- 2 :: jint) <s 0
   \<and> fst (encode demo_opus 4096 (Some 2) 100 (Some 5) demo_world) = - 2
   \<and> fst (decode demo_opus 4096 (Some 5) 2 (Some 2) 100 demo_world) = - 2"
  using codec_error_passed_through [where h = 4096 and w = demo_world and s = 2
      and xs = "replicate 100 0" and b = 5 and ys = "[1, 2]" and frameSize = 100
      and c = demo_opus and nRet = "- 2" and ys' = "[1, 2]" and st = 0 and bytesLength = 2
      and xs' = "replicate 100 0"]
  by (simp add: demo_world_def demo_opus_def word_sless_alt)

section \<open>Diagnostics\<close>



section \<open>The byte length of \<^verbatim>\<open>decode\<close>\<close>

text \<open>
  C10. \<^verbatim>\<open>decode\<close> checks only that \<open>bytesLength\<close> is positive and that the output array holds at
  least \<open>frameSize\<close> samples; it never compares \<open>bytesLength\<close> with the length of the input
  array. So for every call in which \<open>bytesLength\<close> exceeds the real length of the input array
  and the other checks pass, the codec is invoked, after the two acquisitions, on the
  elements of the input array with \<open>bytesLength\<close> as their length, and its result is the
  result of the call.
\<close>

theorem decode_length_unchecked:
  assumes "h \<noteq> 0" "short_arrays w s = Some xs" "length xs < 2 ^ 31"
    and "byte_arrays w b = Some ys" "length ys < 2 ^ 31"
    and "0 < sint bytesLength" "sint frameSize \<le> int (length xs)"
    and "int (length ys) < sint bytesLength"
  shows "take 3 (drop (length (trace w))
           (trace (snd (decode c h (Some b) bytesLength (Some s) frameSize w))))
         = [GetElements (ShortElems s), GetElements (ByteElems b),
            Codec (Call_decode h ys bytesLength frameSize 0)]
       \<and> fst (decode c h (Some b) bytesLength (Some s) frameSize w)
         = fst (fst (opus_decode c h ys bytesLength xs frameSize 0 (codec_st w)))"
proof -
  obtain nRet xs' st where
    r: "opus_decode c h ys bytesLength xs frameSize 0 (codec_st w) = ((nRet, xs'), st)"
    by (metis surj_pair)
  from assms have "\<not> (bytesLength \<le>s 0 \<or> of_nat (length xs) <s frameSize)"
    by (simp add: jsize_sless jint_sle_zero)
  from decode_run [OF assms(1,2,4) this r] r show ?thesis by simp
qed

text \<open>A byte length of 1000 for an input array of two bytes.\<close>

theorem decode_length_unchecked_witness:
  "(4096 :: jlong) \<noteq> 0 \<and> short_arrays demo_world 1 = Some (replicate 320 0)
   \<and> length (replicate 320 (0 :: jshort)) < 2 ^ 31
   \<and> byte_arrays demo_world 5 = Some [1, 2] \<and> length [1, 2 :: jbyte] < 2 ^ 31
   \<and> 0 < sint (1000 :: jint) \<and> sint (320 :: jint) \<le> int (length (replicate 320 (0 :: jshort)))
   \<and> int (length [1, 2 :: jbyte]) < sint (1000 :: jint)
   \<and> take 3 (drop (length (trace demo_world))
        (trace (snd (decode demo_opus 4096 (Some 5) 1000 (Some 1) 320 demo_world))))
       = [GetElements (ShortElems 1), GetElements (ByteElems 5),
          Codec (Call_decode 4096 [1, 2] 1000 320 0)]"
  using decode_length_unchecked [where h = 4096 and w = demo_world and s = 1
      and xs = "replicate 320 0" and b = 5 and ys = "[1, 2]" and bytesLength = 1000
      and frameSize = 320 and c = demo_opus]
  by (simp add: demo_world_def)

end
